theory Spec2Isabelle
  imports Main
begin

section \<open>The deploy command of the Convex CLI\<close>

text \<open>
  A shallow embedding of \<^verbatim>\<open>src/cli/deploy.ts\<close> and of the deployment helpers that
  follow it in the same source file (\<^verbatim>\<open>lib/deployment.ts\<close>: the admin-key parser, the
  editors of \<^verbatim>\<open>.env.local\<close> and \<^verbatim>\<open>.gitignore\<close>).

  JavaScript strings are modelled as \<^typ>\<open>string\<close>. A value of type \<^verbatim>\<open>T | undefined\<close>
  or \<^verbatim>\<open>T | null\<close> is an \<^typ>\<open>'a option\<close>, with \<^const>\<open>None\<close> for the missing value.
\<close>

subsection \<open>String primitives\<close>

text \<open>
  \<^verbatim>\<open>String.prototype.split(sep)\<close> for a separator of one character, the only use the
  source makes of it (\<^verbatim>\<open>"\n"\<close>, \<^verbatim>\<open>":"\<close>, \<^verbatim>\<open>"|"\<close>). The result is never the empty
  array: the empty string splits into one empty piece, and a trailing separator leaves
  a trailing empty piece.
\<close>

fun str_split :: "'a \<Rightarrow> 'a list \<Rightarrow> 'a list list" where
  "str_split sep [] = [[]]"
| "str_split sep (c # cs) =
     (if c = sep then [] # str_split sep cs
      else (case str_split sep cs of
              [] \<Rightarrow> [[c]]
            | w # ws \<Rightarrow> (c # w) # ws))"

definition dquote :: string where
  "dquote = [CHR 0x22]"

definition squote :: string where
  "squote = [CHR 0x27]"

definition newline :: string where
  "newline = [CHR 0x0A]"

subsection \<open>The admin-key parser (lib/deployment.ts)\<close>

text \<open>
  \<^verbatim>\<open>deployment.split(":").at(-1)!\<close>: the last piece. \<^const>\<open>str_split\<close> never returns
  the empty list (lemma \<open>str_split_not_Nil\<close> below), so \<^const>\<open>last\<close> is applied to a
  non-empty list only, where it is what \<^verbatim>\<open>at(-1)\<close> returns.
\<close>

definition stripDeploymentTypePrefix :: "string \<Rightarrow> string" where
  "stripDeploymentTypePrefix deployment = last (str_split (CHR '':'') deployment)"

text \<open>\<^verbatim>\<open>parts.at(0)!\<close> is the first piece, again of a non-empty list.\<close>

definition deploymentTypeFromAdminKey :: "string \<Rightarrow> string" where
  "deploymentTypeFromAdminKey adminKey =
     (let parts = str_split (CHR '':'') adminKey
      in if length parts = 1 then ''prod'' else hd parts)"

definition deploymentNameFromAdminKey :: "string \<Rightarrow> string option" where
  "deploymentNameFromAdminKey adminKey =
     (let parts = str_split (CHR ''|'') adminKey
      in if length parts = 1 then None
         else if deploymentTypeFromAdminKey adminKey \<noteq> ''prod'' then None
         else Some (stripDeploymentTypePrefix (hd parts)))"

text \<open>
  The same three functions in the words of the specification, on the string itself
  rather than on the pieces of a split: the substring before the first occurrence of a
  character, and the substring after its last occurrence (the whole string when the
  character does not occur).
\<close>

definition substring_before_first :: "char \<Rightarrow> string \<Rightarrow> string" where
  "substring_before_first c s = takeWhile (\<lambda>x. x \<noteq> c) s"

definition substring_after_last :: "char \<Rightarrow> string \<Rightarrow> string" where
  "substring_after_last c s = rev (takeWhile (\<lambda>x. x \<noteq> c) (rev s))"

subsection \<open>The editor of .gitignore (lib/deployment.ts)\<close>

definition ENV_VAR_FILE_PATH :: string where
  "ENV_VAR_FILE_PATH = ''.env.local''"

definition CONVEX_DEPLOYMENT_VAR_NAME :: string where
  "CONVEX_DEPLOYMENT_VAR_NAME = ''CONVEX_DEPLOYMENT''"

definition envVarFilePattern :: "string \<Rightarrow> bool" where
  "envVarFilePattern line \<longleftrightarrow>
     line = ''.env.local'' \<or> line = ''.env.*'' \<or> line = ''.env*'' \<or>
     line = ''*.local'' \<or> line = ''.env*.local''"

definition changesToGitIgnore :: "string option \<Rightarrow> string option" where
  "changesToGitIgnore existingFile =
     (case existingFile of
        None \<Rightarrow> Some (ENV_VAR_FILE_PATH @ newline)
      | Some existing \<Rightarrow>
          (let gitIgnoreLines = str_split (CHR 0x0A) existing;
               envVarFileIgnored = list_ex envVarFilePattern gitIgnoreLines
           in if \<not> envVarFileIgnored
              then Some (existing @ newline @ ENV_VAR_FILE_PATH @ newline)
              else None))"

subsection \<open>The editor of .env.local (lib/deployment.ts)\<close>

text \<open>
  The state \<^verbatim>\<open>writeDeploymentEnvVar\<close> works on: the files reached through
  \<^verbatim>\<open>ctx.fs\<close> (path to content; \<^verbatim>\<open>ctx.fs.exists\<close> is membership in the domain) and
  \<^verbatim>\<open>process.env\<close>.
\<close>

record procState =
  files :: "string \<rightharpoonup> string"
  env :: "string \<rightharpoonup> string"

datatype deploymentType = Dev | Prod

fun deploymentTypeString :: "deploymentType \<Rightarrow> string" where
  "deploymentTypeString Dev = ''dev''"
| "deploymentTypeString Prod = ''prod''"

record deployment =
  team :: string
  project :: string
  deploymentName :: string

text \<open>
  \<^verbatim>\<open>changedEnvVarFile\<close> is declared in \<^verbatim>\<open>lib/envvars.ts\<close>, which is not part of
  the source at hand: it is a parameter, applied to the five arguments the source
  gives it.
\<close>

type_synonym changedEnvVarFileT =
  "string option \<Rightarrow> string \<Rightarrow> string \<Rightarrow> string \<Rightarrow> string \<Rightarrow> string option"

definition changesToEnvVarFile ::
  "changedEnvVarFileT \<Rightarrow> string option \<Rightarrow> deploymentType \<Rightarrow> deployment \<Rightarrow> string option" where
  "changesToEnvVarFile changedEnvVarFile existingFile dtype d =
     (let deploymentValue = deploymentTypeString dtype @ '':'' @ deploymentName d;
          commentOnPreviousLine = ''# Deployment used by `npx convex dev`'';
          commentAfterValue = ''team: '' @ team d @ '', project: '' @ project d
      in changedEnvVarFile existingFile CONVEX_DEPLOYMENT_VAR_NAME deploymentValue
           commentAfterValue commentOnPreviousLine)"

definition gitIgnoreEnvVarFile :: "procState \<Rightarrow> procState \<times> bool" where
  "gitIgnoreEnvVarFile st =
     (let gitIgnorePath = ''.gitignore'';
          gitIgnoreContents = (case files st gitIgnorePath of Some c \<Rightarrow> c | None \<Rightarrow> '''')
      in case changesToGitIgnore (Some gitIgnoreContents) of
           Some changedGitIgnore \<Rightarrow>
             (st\<lparr>files := (files st)(gitIgnorePath \<mapsto> changedGitIgnore)\<rparr>, True)
         | None \<Rightarrow> (st, False))"

text \<open>The result is the new state and the field \<^verbatim>\<open>wroteToGitIgnore\<close> of the returned object.\<close>

definition writeDeploymentEnvVar ::
  "changedEnvVarFileT \<Rightarrow> procState \<Rightarrow> deploymentType \<Rightarrow> deployment \<Rightarrow> procState \<times> bool" where
  "writeDeploymentEnvVar changedEnvVarFile st dtype d =
     (let existingFile = files st ENV_VAR_FILE_PATH;
          changedFile = changesToEnvVarFile changedEnvVarFile existingFile dtype d;
          st1 = st\<lparr>env := (env st)(CONVEX_DEPLOYMENT_VAR_NAME \<mapsto>
                   deploymentTypeString dtype @ '':'' @ deploymentName d)\<rparr>
      in case changedFile of
           Some content \<Rightarrow>
             gitIgnoreEnvVarFile (st1\<lparr>files := (files st1)(ENV_VAR_FILE_PATH \<mapsto> content)\<rparr>)
         | None \<Rightarrow> (st1, False))"

subsection \<open>Command-line options (cli/deploy.ts)\<close>

text \<open>
  The option object the argument parser hands to the action. Every optional field has
  the type \<^verbatim>\<open>T | undefined\<close> and is an option, \<^const>\<open>None\<close> being \<^verbatim>\<open>undefined\<close>.
  The field \<^verbatim>\<open>adminKey\<close> is declared \<^verbatim>\<open>string | undefined\<close> as well, but the action
  compares it with \<^verbatim>\<open>null\<close> by strict equality, so its model keeps \<^verbatim>\<open>undefined\<close> and
  \<^verbatim>\<open>null\<close> apart: the parser yields \<open>Undefined\<close> when \<^verbatim>\<open>--admin-key\<close> is not given and
  \<open>Val k\<close> when it is.
\<close>

datatype 'a maybe = Undefined | Null | Val 'a

datatype typecheckMode = TypecheckEnable | TypecheckTry | TypecheckDisable

datatype switch = Enable | Disable

record cmdOptions =
  verbose :: "bool option"
  dryRun :: "bool option"
  yes :: "bool option"
  typecheck :: typecheckMode
  codegen :: switch
  cmd :: "string option"
  cmdUrlEnvVarName :: "string option"
  previewRun :: "string option"
  previewCreate :: "string option"
  previewName :: "string option"
  checkBuildEnvironment :: switch
  debugBundlePath :: "string option"
  debug :: "bool option"
  adminKey :: "string maybe"
  url :: "string option"
  logDeploymentName :: "bool option"

text \<open>Truthiness of a \<^verbatim>\<open>boolean | undefined\<close>, as in \<^verbatim>\<open>if (x)\<close> and \<^verbatim>\<open>!!x\<close>.\<close>

definition truthy :: "bool option \<Rightarrow> bool" where
  "truthy b \<longleftrightarrow> b = Some True"

record pushOptions =
  push_adminKey :: string
  push_verbose :: bool
  push_dryRun :: bool
  push_typecheck :: typecheckMode
  push_debug :: bool
  push_debugBundlePath :: "string option"
  push_codegen :: bool
  push_url :: string

subsection \<open>Collaborators and observable events\<close>

text \<open>
  What \<^verbatim>\<open>fetchDeploymentCredentialsWithinCurrentProject\<close> and the claim call of
  \<^verbatim>\<open>bigBrainAPI\<close> return, as far as deploy.ts reads it.
\<close>

record deploymentNames =
  configured :: "string option"
  selected :: string

record credentials =
  cred_adminKey :: string
  cred_url :: string
  cred_deploymentNames :: "deploymentNames option"

record claimData =
  data_adminKey :: string
  data_instanceUrl :: string

text \<open>
  Everything the command does to the outside is recorded as an event, in order: a log
  line of each kind, and each call of a collaborator that takes the context, spawns a
  process, prompts or goes to the network. Reading the environment (\<^verbatim>\<open>isNonProdBuildEnvironment\<close>,
  \<^verbatim>\<open>gitBranchFromEnvironment\<close>, the deploy key) is no event. The project selection and the
  deployment selection are values deploy.ts only passes on; they are kept as strings.
\<close>

datatype event =
    LogError string
  | LogFailure string
  | LogFinishedStep string
  | LogMessage string
  | LogOutput string
  | ShowSpinner string
  | GetConfiguredDeployment
  | UsageStateWarning
  | SuggestedEnvVarName
  | ProjectSelection "string option" string
  | BigBrainAPI string string string string
  | FetchDeploymentCredentialsWithinCurrentProject string
  | SpawnSync string string string
  | InquirerPrompt string
  | RunPush pushOptions
  | RunFunctionAndLog string string string

text \<open>
  The collaborators, none of which is in the source at hand: each is a parameter. A
  collaborator that receives the context may end the process itself
  (\<^verbatim>\<open>ctx.crash\<close>): its result is \<open>Inl code\<close> then, \<open>Inr value\<close> when it returns.
  \<^item> \<open>storeAdminKeyEnvVar\<close>, \<open>readAdminKeyFromEnvVar\<close>: \<^verbatim>\<open>lib/api.ts\<close>, \<^verbatim>\<open>lib/utils.ts\<close>,
    writing and reading \<^verbatim>\<open>process.env\<close>;
  \<^item> \<open>spawnSync\<close>: the exit status (\<^verbatim>\<open>number | null\<close>) of the command run with the
    given environment variable set to the given URL;
  \<^item> \<open>inquirerPrompt\<close>: the answer to the confirmation with the given message;
  \<^item> \<open>runFunctionAndLog\<close>: whether it called the \<^verbatim>\<open>onSuccess\<close> callback;
  \<^item> \<open>chalkBold\<close>: \<^verbatim>\<open>chalk.bold\<close>.
\<close>

record world =
  processEnv :: "string \<rightharpoonup> string"
  storeAdminKeyEnvVar :: "string maybe \<Rightarrow> (string \<rightharpoonup> string) \<Rightarrow> (string \<rightharpoonup> string)"
  readAdminKeyFromEnvVar :: "(string \<rightharpoonup> string) \<Rightarrow> string option"
  isNonProdBuildEnvironment :: bool
  gitBranchFromEnvironment :: "string option"
  getConfiguredDeployment :: "nat + string option"
  usageStateWarning :: "nat + unit"
  suggestedEnvVarName :: "nat + string"
  projectSelection :: "string option \<Rightarrow> string \<Rightarrow> nat + string"
  bigBrainAPI :: "string \<Rightarrow> string \<Rightarrow> string \<Rightarrow> string \<Rightarrow> nat + claimData"
  deploymentSelectionFromOptions :: "cmdOptions \<Rightarrow> string"
  fetchDeploymentCredentialsWithinCurrentProject :: "string \<Rightarrow> nat + credentials"
  spawnSync :: "string \<Rightarrow> string \<Rightarrow> string \<Rightarrow> int option"
  inquirerPrompt :: "string \<Rightarrow> bool"
  runPush :: "pushOptions \<Rightarrow> nat + unit"
  runFunctionAndLog :: "string \<Rightarrow> string \<Rightarrow> string \<Rightarrow> nat + bool"
  chalkBold :: "string \<Rightarrow> string"

text \<open>
  Modelled from the spec: the constant \<^verbatim>\<open>CONVEX_DEPLOY_KEY_ENV_VAR_NAME\<close> of
  \<^verbatim>\<open>lib/utils.ts\<close>, the fixed name of the deploy-key environment variable; the
  description of the command in deploy.ts spells it out.
\<close>

definition CONVEX_DEPLOY_KEY_ENV_VAR_NAME :: string where
  "CONVEX_DEPLOY_KEY_ENV_VAR_NAME = ''CONVEX_DEPLOY_KEY''"

subsection \<open>Messages of the deploy command\<close>

text \<open>
  The texts the action logs when it ends the process, and the question of the
  confirmation prompt, each as the template literal of the source builds it.
\<close>

definition buildEnvironmentMessage :: string where
  "buildEnvironmentMessage =
     ''Detected a non-production build environment and '' @ dquote @
     CONVEX_DEPLOY_KEY_ENV_VAR_NAME @ dquote @
     '' for a production Convex deployment.'' @ newline @ newline @
     ''          This is probably unintentional.'' @ newline @
     ''          ''"

definition deployKeyMissingMessage :: string where
  "deployKeyMissingMessage =
     ''Please set '' @ CONVEX_DEPLOY_KEY_ENV_VAR_NAME @
     '' to a new key which you can find on the Convex dashboard for your '' @
     ''production deployment.''"

definition previewNameDeprecatedMessage :: string where
  "previewNameDeprecatedMessage =
     ''The `--preview-name` flag has been deprecated in favor of `--preview-create`. '' @
     ''Please re-run the command using `--preview-create` instead.''"

definition confirmQuestion :: "string \<Rightarrow> string" where
  "confirmQuestion prodName =
     ''Do you want to push your code to your prod deployment '' @ prodName @ '' now?''"

subsection \<open>Sequencing with process exit\<close>

text \<open>
  An asynchronous function of the source is a computation that produces the events it
  caused and either the exit code of \<^verbatim>\<open>ctx.crash(code)\<close>, after which nothing runs,
  or its return value.
\<close>

type_synonym 'a io = "event list \<times> (nat + 'a)"

definition returnIO :: "'a \<Rightarrow> 'a io" where
  "returnIO a = ([], Inr a)"

definition crash :: "nat \<Rightarrow> 'a io" where
  "crash code = ([], Inl code)"

definition emit :: "event \<Rightarrow> unit io" where
  "emit e = ([e], Inr ())"

definition callIO :: "event \<Rightarrow> nat + 'a \<Rightarrow> 'a io" where
  "callIO e r = ([e], r)"

definition bindIO :: "'a io \<Rightarrow> ('a \<Rightarrow> 'b io) \<Rightarrow> 'b io" where
  "bindIO m f =
     (case m of
        (es, Inl code) \<Rightarrow> (es, Inl code)
      | (es, Inr a) \<Rightarrow> (case f a of (es', r) \<Rightarrow> (es @ es', r)))"

subsection \<open>The deploy command (cli/deploy.ts)\<close>

definition deploymentNameFromAdminKeyOrCrash :: "string \<Rightarrow> string io" where
  "deploymentNameFromAdminKeyOrCrash key =
     (case deploymentNameFromAdminKey key of
        None \<Rightarrow>
          bindIO (emit (LogFailure (''Please set '' @ CONVEX_DEPLOY_KEY_ENV_VAR_NAME @
                    '' to a new key which you can find on your Convex dashboard.'')))
            (\<lambda>_. crash 1)
      | Some name \<Rightarrow> returnIO name)"

definition runCommand ::
  "world \<Rightarrow> string option \<Rightarrow> string option \<Rightarrow> bool option \<Rightarrow> string \<Rightarrow> unit io" where
  "runCommand w optCmdUrlEnvVarName optCmd optDryRun optUrl =
     (case optCmd of
        None \<Rightarrow> returnIO ()
      | Some command \<Rightarrow>
          bindIO (case optCmdUrlEnvVarName of
                    Some v \<Rightarrow> returnIO v
                  | None \<Rightarrow> callIO SuggestedEnvVarName (suggestedEnvVarName w)) (\<lambda>urlVar.
          bindIO (emit (ShowSpinner (''Running '' @ squote @ command @ squote @
                    '' with environment variable '' @ dquote @ urlVar @ dquote @ '' set...'' @
                    (if truthy optDryRun then '' [dry run]'' else '''')))) (\<lambda>_.
          bindIO (if \<not> truthy optDryRun
                  then bindIO (callIO (SpawnSync command urlVar optUrl)
                                 (Inr (spawnSync w command urlVar optUrl))) (\<lambda>status.
                       if status \<noteq> Some 0
                       then bindIO (emit (LogFailure (squote @ command @ squote @ '' failed'')))
                              (\<lambda>_. crash 1)
                       else returnIO ())
                  else returnIO ()) (\<lambda>_.
          emit (LogFinishedStep ((if truthy optDryRun then ''Would have run'' else ''Ran'') @
                  '' '' @ dquote @ command @ dquote @
                  '' with environment variable '' @ dquote @ urlVar @ dquote @ '' set''))))))"

definition askToConfirmPush :: "world \<Rightarrow> string \<Rightarrow> string \<Rightarrow> string \<Rightarrow> bool io" where
  "askToConfirmPush w configuredName prodName prodUrl =
     bindIO (callIO SuggestedEnvVarName (suggestedEnvVarName w)) (\<lambda>envVar.
     bindIO (emit (LogMessage (
        ''You'' @ squote @ ''re currently developing against your '' @ chalkBold w ''dev'' @
        '' deployment'' @ newline @ newline @
        ''  '' @ configuredName @ '' (set in CONVEX_DEPLOYMENT)'' @ newline @ newline @
        ''Your '' @ chalkBold w ''prod'' @ '' deployment '' @ chalkBold w prodName @
        '' serves traffic at:'' @ newline @ newline @
        ''  '' @ envVar @ ''='' @ chalkBold w prodUrl @ newline @ newline @
        ''Make sure that your published client is configured with this URL '' @
        ''(for instructions see https://docs.convex.dev/hosting)'' @ newline))) (\<lambda>_.
     callIO (InquirerPrompt (confirmQuestion prodName))
       (Inr (inquirerPrompt w (confirmQuestion prodName)))))"

definition PREVIEW_PLACEHOLDER_URL :: string where
  "PREVIEW_PLACEHOLDER_URL = ''https://<PREVIEW DEPLOYMENT>.convex.cloud''"

text \<open>
  \<^verbatim>\<open>handlePreview\<close> receives the options of the command with the field
  \<^verbatim>\<open>configuredDeployKey\<close> added: here the options and, as \<open>deployKey\<close>, that field.
\<close>

definition handlePreview :: "world \<Rightarrow> cmdOptions \<Rightarrow> string \<Rightarrow> unit io" where
  "handlePreview w options deployKey =
     bindIO (case (case previewCreate options of
                     Some n \<Rightarrow> Some n
                   | None \<Rightarrow> gitBranchFromEnvironment w) of
               None \<Rightarrow>
                 bindIO (emit (LogError (''`npx convex deploy` to a preview deployment could not '' @
                           ''determine the preview name. Provide one using `--preview-create`'')))
                   (\<lambda>_. crash 1)
             | Some n \<Rightarrow> returnIO n) (\<lambda>name.
     if truthy (dryRun options)
     then
       bindIO (emit (LogFinishedStep (''Would have claimed preview deployment for '' @
                 dquote @ name @ dquote))) (\<lambda>_.
       bindIO (runCommand w (cmdUrlEnvVarName options) (cmd options)
                 (Some (truthy (dryRun options))) PREVIEW_PLACEHOLDER_URL) (\<lambda>_.
       bindIO (emit (LogFinishedStep (''Would have deployed Convex functions to preview '' @
                 ''deployment for '' @ dquote @ name @ dquote))) (\<lambda>_.
       (case previewRun options of
          Some f \<Rightarrow> emit (LogMessage (''Would have run function '' @ dquote @ f @ dquote))
        | None \<Rightarrow> returnIO ()))))
     else
       bindIO (callIO GetConfiguredDeployment (getConfiguredDeployment w)) (\<lambda>configuredDeployment.
       bindIO (callIO (ProjectSelection configuredDeployment deployKey)
                 (projectSelection w configuredDeployment deployKey)) (\<lambda>selection.
       bindIO (callIO (BigBrainAPI ''POST'' ''claim_preview_deployment'' selection name)
                 (bigBrainAPI w ''POST'' ''claim_preview_deployment'' selection name)) (\<lambda>data.
       (let previewAdminKey = data_adminKey data;
            previewUrl = data_instanceUrl data;
            pushOpts = \<lparr>push_adminKey = previewAdminKey,
                        push_verbose = truthy (verbose options),
                        push_dryRun = False,
                        push_typecheck = typecheck options,
                        push_debug = truthy (debug options),
                        push_debugBundlePath = debugBundlePath options,
                        push_codegen = (codegen options = Enable),
                        push_url = previewUrl\<rparr>
        in
       bindIO (runCommand w (cmdUrlEnvVarName options) (cmd options) (dryRun options)
                 previewUrl) (\<lambda>_.
       bindIO (emit (ShowSpinner (''Deploying to '' @ previewUrl @ ''...''))) (\<lambda>_.
       bindIO (callIO (RunPush pushOpts) (runPush w pushOpts)) (\<lambda>_.
       bindIO (emit (LogFinishedStep (''Deployed Convex functions to '' @ previewUrl))) (\<lambda>_.
       bindIO (case previewRun options of
                 Some f \<Rightarrow>
                   bindIO (callIO (RunFunctionAndLog previewUrl previewAdminKey f)
                             (runFunctionAndLog w previewUrl previewAdminKey f)) (\<lambda>succeeded.
                   if succeeded
                   then emit (LogFinishedStep (''Finished running function '' @
                          dquote @ f @ dquote))
                   else returnIO ())
               | None \<Rightarrow> returnIO ()) (\<lambda>_.
       if truthy (logDeploymentName options)
       then bindIO (deploymentNameFromAdminKeyOrCrash previewAdminKey) (\<lambda>deploymentName'.
            emit (LogOutput deploymentName'))
       else returnIO ()))))))))))"

text \<open>
  \<^verbatim>\<open>deploymentSelectionFromOptions\<close> receives the options with \<^verbatim>\<open>prod: true\<close> added; the
  collaborator of the model is that function of the options.
\<close>

definition handleProduction :: "world \<Rightarrow> cmdOptions \<Rightarrow> unit io" where
  "handleProduction w options =
     (let deploymentSelection = deploymentSelectionFromOptions w options
      in
     bindIO (callIO (FetchDeploymentCredentialsWithinCurrentProject deploymentSelection)
               (fetchDeploymentCredentialsWithinCurrentProject w deploymentSelection)) (\<lambda>creds.
     (let key = cred_adminKey creds;
          target = cred_url creds;
          pushOpts = \<lparr>push_adminKey = key,
                      push_verbose = truthy (verbose options),
                      push_dryRun = truthy (dryRun options),
                      push_typecheck = typecheck options,
                      push_debug = truthy (debug options),
                      push_debugBundlePath = debugBundlePath options,
                      push_codegen = (codegen options = Enable),
                      push_url = target\<rparr>
      in
     bindIO (case cred_deploymentNames creds of
               None \<Rightarrow> returnIO ()
             | Some names \<Rightarrow>
                 (case configured names of
                    None \<Rightarrow> returnIO ()
                  | Some configuredName \<Rightarrow>
                      bindIO (if selected names = configuredName then returnIO True
                              else (case yes options of
                                      Some b \<Rightarrow> returnIO b
                                    | None \<Rightarrow>
                                        askToConfirmPush w configuredName (selected names)
                                          target)) (\<lambda>shouldPushToProd.
                      if \<not> shouldPushToProd then crash 1 else returnIO ()))) (\<lambda>_.
     bindIO (runCommand w (cmdUrlEnvVarName options) (cmd options) (dryRun options)
               target) (\<lambda>_.
     bindIO (emit (ShowSpinner (''Deploying to '' @ target @ ''...'' @
               (if truthy (dryRun options) then '' [dry run]'' else '''')))) (\<lambda>_.
     bindIO (callIO (RunPush pushOpts) (runPush w pushOpts)) (\<lambda>_.
     bindIO (emit (LogFinishedStep ((if truthy (dryRun options) then ''Would have deployed''
               else ''Deployed'') @ '' Convex functions to '' @ target))) (\<lambda>_.
     if truthy (logDeploymentName options)
     then bindIO (deploymentNameFromAdminKeyOrCrash key) (\<lambda>deploymentName'.
          emit (LogOutput deploymentName'))
     else returnIO ()))))))))"

text \<open>
  The value of \<^verbatim>\<open>configuredDeployKey\<close>: what \<^verbatim>\<open>readAdminKeyFromEnvVar()\<close> reads after
  \<^verbatim>\<open>storeAdminKeyEnvVar(cmdOptions.adminKey)\<close> has run, \<^verbatim>\<open>undefined\<close> turned into
  \<^verbatim>\<open>null\<close>.
\<close>

definition configuredDeployKey :: "world \<Rightarrow> cmdOptions \<Rightarrow> string option" where
  "configuredDeployKey w cmdOpts =
     readAdminKeyFromEnvVar w (storeAdminKeyEnvVar w (adminKey cmdOpts) (processEnv w))"

text \<open>
  The action of the command. The two tests of the deploy key,
  \<^verbatim>\<open>configuredDeployKey !== null && deploymentTypeFromAdminKey(configuredDeployKey) === ...\<close>,
  are case distinctions on the option.
\<close>

definition deployAction :: "world \<Rightarrow> cmdOptions \<Rightarrow> unit io" where
  "deployAction w cmdOpts =
     (let deployKey = configuredDeployKey w cmdOpts
      in
     bindIO (if checkBuildEnvironment cmdOpts = Enable \<and>
                isNonProdBuildEnvironment w \<and>
                (case deployKey of
                   None \<Rightarrow> False
                 | Some key \<Rightarrow> deploymentTypeFromAdminKey key = ''prod'')
             then bindIO (emit (LogError buildEnvironmentMessage)) (\<lambda>_. crash 1)
             else returnIO ()) (\<lambda>_.
     bindIO (callIO GetConfiguredDeployment (getConfiguredDeployment w)) (\<lambda>configuredDeployment.
     bindIO (if configuredDeployment = None \<and> adminKey cmdOpts = Null
             then bindIO (emit (LogFailure deployKeyMissingMessage)) (\<lambda>_. crash 1)
             else returnIO ()) (\<lambda>_.
     bindIO (callIO UsageStateWarning (usageStateWarning w)) (\<lambda>_.
     (case deployKey of
        None \<Rightarrow> handleProduction w cmdOpts
      | Some key \<Rightarrow>
          if deploymentTypeFromAdminKey key = ''preview''
          then
            bindIO (if previewName cmdOpts \<noteq> None
                    then bindIO (emit (LogError previewNameDeprecatedMessage)) (\<lambda>_. crash 1)
                    else returnIO ()) (\<lambda>_.
            handlePreview w cmdOpts key)
          else handleProduction w cmdOpts))))))"

text \<open>
  The action is modelled for every option object, the one with both \<^verbatim>\<open>previewCreate\<close>
  and \<^verbatim>\<open>previewName\<close> set included. The two options each declare the other as a
  conflict, under the flag names (\<^verbatim>\<open>.conflicts("preview-name")\<close> at line 90,
  \<^verbatim>\<open>.conflicts("preview-create")\<close> at line 114); the action itself, the only code of the
  command in the source, has no test of the pair.
\<close>

subsection \<open>Classes of events\<close>

text \<open>
  A call that may go to the network (every collaborator that talks to the backend: the
  claim call, the credentials, the push, the function run, and also the project
  selection and the usage warning), a spawned process, a prompt, a line of narration.
\<close>

fun isNetworkCall :: "event \<Rightarrow> bool" where
  "isNetworkCall (BigBrainAPI _ _ _ _) = True"
| "isNetworkCall (FetchDeploymentCredentialsWithinCurrentProject _) = True"
| "isNetworkCall (RunPush _) = True"
| "isNetworkCall (RunFunctionAndLog _ _ _) = True"
| "isNetworkCall (ProjectSelection _ _) = True"
| "isNetworkCall UsageStateWarning = True"
| "isNetworkCall _ = False"

fun isSpawn :: "event \<Rightarrow> bool" where
  "isSpawn (SpawnSync _ _ _) = True"
| "isSpawn _ = False"

fun isPrompt :: "event \<Rightarrow> bool" where
  "isPrompt (InquirerPrompt _) = True"
| "isPrompt _ = False"

fun isNarration :: "event \<Rightarrow> bool" where
  "isNarration (LogError _) = True"
| "isNarration (LogFailure _) = True"
| "isNarration (LogFinishedStep _) = True"
| "isNarration (LogMessage _) = True"
| "isNarration (LogOutput _) = True"
| "isNarration (ShowSpinner _) = True"
| "isNarration _ = False"

fun isPush :: "event \<Rightarrow> bool" where
  "isPush (RunPush _) = True"
| "isPush _ = False"

fun isClaimCall :: "event \<Rightarrow> bool" where
  "isClaimCall (BigBrainAPI _ _ _ _) = True"
| "isClaimCall _ = False"

fun isLogMessage :: "event \<Rightarrow> bool" where
  "isLogMessage (LogMessage _) = True"
| "isLogMessage _ = False"

subsection \<open>The stages of the production flow\<close>

text \<open>
  \<^const>\<open>handleProduction\<close> cut at its two seams, for the proofs: the confirmation
  (lines 321 to 336) and the push that follows it (lines 338 to 367), with the push
  options the source builds in between. Lemma \<open>handleProduction_stages\<close> puts them
  together again.
\<close>

definition confirmPush :: "world \<Rightarrow> cmdOptions \<Rightarrow> credentials \<Rightarrow> unit io" where
  "confirmPush w options creds =
     (case cred_deploymentNames creds of
        None \<Rightarrow> returnIO ()
      | Some names \<Rightarrow>
          (case configured names of
             None \<Rightarrow> returnIO ()
           | Some configuredName \<Rightarrow>
               bindIO (if selected names = configuredName then returnIO True
                       else (case yes options of
                               Some b \<Rightarrow> returnIO b
                             | None \<Rightarrow>
                                 askToConfirmPush w configuredName (selected names)
                                   (cred_url creds))) (\<lambda>shouldPushToProd.
               if \<not> shouldPushToProd then crash 1 else returnIO ())))"

definition productionPushOptions :: "cmdOptions \<Rightarrow> credentials \<Rightarrow> pushOptions" where
  "productionPushOptions options creds =
     \<lparr>push_adminKey = cred_adminKey creds,
      push_verbose = truthy (verbose options),
      push_dryRun = truthy (dryRun options),
      push_typecheck = typecheck options,
      push_debug = truthy (debug options),
      push_debugBundlePath = debugBundlePath options,
      push_codegen = (codegen options = Enable),
      push_url = cred_url creds\<rparr>"

definition pushToProd :: "world \<Rightarrow> cmdOptions \<Rightarrow> credentials \<Rightarrow> unit io" where
  "pushToProd w options creds =
     bindIO (runCommand w (cmdUrlEnvVarName options) (cmd options) (dryRun options)
               (cred_url creds)) (\<lambda>_.
     bindIO (emit (ShowSpinner (''Deploying to '' @ cred_url creds @ ''...'' @
               (if truthy (dryRun options) then '' [dry run]'' else '''')))) (\<lambda>_.
     bindIO (callIO (RunPush (productionPushOptions options creds))
               (runPush w (productionPushOptions options creds))) (\<lambda>_.
     bindIO (emit (LogFinishedStep ((if truthy (dryRun options) then ''Would have deployed''
               else ''Deployed'') @ '' Convex functions to '' @ cred_url creds))) (\<lambda>_.
     if truthy (logDeploymentName options)
     then bindIO (deploymentNameFromAdminKeyOrCrash (cred_adminKey creds)) (\<lambda>deploymentName'.
          emit (LogOutput deploymentName'))
     else returnIO ()))))"

subsection \<open>The trace of a dry run of the preview flow\<close>

text \<open>
  What a dry run of the preview flow does, written out as a list: the preview name,
  the build command if any, the name of the environment variable (given by
  \<^verbatim>\<open>--cmd-url-env-var-name\<close> or suggested by the collaborator, which is then called)
  and the function of \<^verbatim>\<open>--preview-run\<close> if any. No URL occurs in it.
\<close>

definition previewDryRunTrace ::
  "string \<Rightarrow> string option \<Rightarrow> string option \<Rightarrow> string \<Rightarrow> string option \<Rightarrow> event list" where
  "previewDryRunTrace name optCmd optVarName urlVar optRun =
     [LogFinishedStep (''Would have claimed preview deployment for '' @ dquote @ name @ dquote)] @
     (case optCmd of
        None \<Rightarrow> []
      | Some command \<Rightarrow>
          (case optVarName of None \<Rightarrow> [SuggestedEnvVarName] | Some _ \<Rightarrow> []) @
          [ShowSpinner (''Running '' @ squote @ command @ squote @
             '' with environment variable '' @ dquote @ urlVar @ dquote @ '' set... [dry run]''),
           LogFinishedStep (''Would have run '' @ dquote @ command @ dquote @
             '' with environment variable '' @ dquote @ urlVar @ dquote @ '' set'')]) @
     [LogFinishedStep (''Would have deployed Convex functions to preview deployment for '' @
        dquote @ name @ dquote)] @
     (case optRun of
        None \<Rightarrow> []
      | Some f \<Rightarrow> [LogMessage (''Would have run function '' @ dquote @ f @ dquote)])"

subsection \<open>A concrete world and the default options\<close>

text \<open>
  A developer's machine: no deploy key in the environment, a dev deployment configured
  in \<^verbatim>\<open>CONVEX_DEPLOYMENT\<close>, every collaborator succeeds, the build command exits with
  status 0 and the confirmation is answered yes. The options are those the parser
  produces for \<^verbatim>\<open>npx convex deploy\<close> without any flag.
\<close>

definition exampleCredentials :: credentials where
  "exampleCredentials =
     \<lparr>cred_adminKey = ''prod:myapp-1234|secret'',
      cred_url = ''https://myapp-1234.convex.cloud'',
      cred_deploymentNames =
        Some \<lparr>configured = Some ''tall-forest-1234'', selected = ''myapp-1234''\<rparr>\<rparr>"

definition exampleWorld :: world where
  "exampleWorld =
     \<lparr>processEnv = Map.empty,
      storeAdminKeyEnvVar =
        (\<lambda>k e. case k of Val s \<Rightarrow> e(''CONVEX_DEPLOY_KEY'' \<mapsto> s) | _ \<Rightarrow> e),
      readAdminKeyFromEnvVar = (\<lambda>e. e ''CONVEX_DEPLOY_KEY''),
      isNonProdBuildEnvironment = False,
      gitBranchFromEnvironment = None,
      getConfiguredDeployment = Inr (Some ''tall-forest-1234''),
      usageStateWarning = Inr (),
      suggestedEnvVarName = Inr ''VITE_CONVEX_URL'',
      projectSelection = (\<lambda>_ _. Inr ''project''),
      bigBrainAPI = (\<lambda>_ _ _ _. Inr \<lparr>data_adminKey = ''preview:secret'',
                                      data_instanceUrl = PREVIEW_PLACEHOLDER_URL\<rparr>),
      deploymentSelectionFromOptions = (\<lambda>_. ''prod''),
      fetchDeploymentCredentialsWithinCurrentProject = (\<lambda>_. Inr exampleCredentials),
      spawnSync = (\<lambda>_ _ _. Some 0),
      inquirerPrompt = (\<lambda>_. True),
      runPush = (\<lambda>_. Inr ()),
      runFunctionAndLog = (\<lambda>_ _ _. Inr True),
      chalkBold = (\<lambda>s. s)\<rparr>"

definition exampleOptions :: cmdOptions where
  "exampleOptions =
     \<lparr>verbose = None, dryRun = None, yes = None, typecheck = TypecheckTry, codegen = Enable,
      cmd = None, cmdUrlEnvVarName = None, previewRun = None, previewCreate = None,
      previewName = None, checkBuildEnvironment = Enable, debugBundlePath = None,
      debug = None, adminKey = Undefined, url = None, logDeploymentName = None\<rparr>"

section \<open>Properties of the string primitives\<close>

lemma str_split_not_Nil: "str_split sep s \<noteq> []"
  by (induction s) (auto split: list.splits)

lemma str_split_Cons_other:
  "c \<noteq> sep \<Longrightarrow>
   str_split sep (c # cs) = (c # hd (str_split sep cs)) # tl (str_split sep cs)"
  using str_split_not_Nil [of sep cs] by (cases "str_split sep cs") auto

lemma str_split_append_sep:
  "str_split sep (xs @ sep # ys) = str_split sep xs @ str_split sep ys"
proof (induction xs)
  case Nil
  show ?case
    using str_split_not_Nil [of sep ys] by (cases "str_split sep ys") auto
next
  case (Cons x xs)
  show ?case
  proof (cases "x = sep")
    case True
    with Cons show ?thesis by simp
  next
    case False
    obtain w ws where w: "str_split sep xs = w # ws"
      using str_split_not_Nil [of sep xs] by (cases "str_split sep xs") auto
    with False Cons show ?thesis by simp
  qed
qed

lemma length_str_split_one: "length (str_split sep s) = 1 \<longleftrightarrow> sep \<notin> set s"
proof (induction s)
  case Nil
  show ?case by simp
next
  case (Cons c cs)
  obtain w ws where w: "str_split sep cs = w # ws"
    using str_split_not_Nil [of sep cs] by (cases "str_split sep cs") auto
  with Cons show ?case by auto
qed

lemma hd_str_split: "hd (str_split sep s) = takeWhile (\<lambda>x. x \<noteq> sep) s"
proof (induction s)
  case Nil
  show ?case by simp
next
  case (Cons c cs)
  obtain w ws where w: "str_split sep cs = w # ws"
    using str_split_not_Nil [of sep cs] by (cases "str_split sep cs") auto
  with Cons show ?case by auto
qed

lemma str_split_no_sep: "sep \<notin> set s \<Longrightarrow> str_split sep s = [s]"
proof (induction s)
  case Nil
  show ?case by simp
next
  case (Cons c cs)
  then show ?case by auto
qed

lemma last_str_split:
  "last (str_split sep s) = rev (takeWhile (\<lambda>x. x \<noteq> sep) (rev s))"
proof (induction s)
  case Nil
  show ?case by simp
next
  case (Cons c cs)
  obtain w ws where w: "str_split sep cs = w # ws"
    using str_split_not_Nil [of sep cs] by (cases "str_split sep cs") auto
  show ?case
  proof (cases "sep \<in> set cs")
    case True
    then have "ws \<noteq> []"
      using length_str_split_one [of sep cs] w by auto
    with True w Cons show ?thesis
      by (auto simp: takeWhile_append1)
  next
    case False
    then have one: "str_split sep cs = [cs]" by (rule str_split_no_sep)
    from False have tw: "takeWhile (\<lambda>x. x \<noteq> sep) (rev cs @ [c]) = rev cs @ takeWhile (\<lambda>x. x \<noteq> sep) [c]"
      by (intro takeWhile_append2) auto
    from one tw show ?thesis by auto
  qed
qed


lemma length_str_split_Suc_0: "length (str_split sep s) = Suc 0 \<longleftrightarrow> sep \<notin> set s"
  using length_str_split_one [of sep s] by simp

section \<open>The admin-key parser\<close>

text \<open>
  C6. For every admin key, \<^const>\<open>deploymentTypeFromAdminKey\<close> returns \<open>prod\<close> when the key
  has no colon and the substring before the first colon otherwise; for every string,
  \<^const>\<open>stripDeploymentTypePrefix\<close> returns the substring after the last colon, which is
  the whole string when there is no colon.
\<close>

theorem deploymentType_and_stripPrefix:
  "deploymentTypeFromAdminKey key =
     (if CHR '':'' \<in> set key then substring_before_first (CHR '':'') key else ''prod'') \<and>
   stripDeploymentTypePrefix s = substring_after_last (CHR '':'') s \<and>
   (CHR '':'' \<notin> set s \<longrightarrow> stripDeploymentTypePrefix s = s)"
  by (simp add: deploymentTypeFromAdminKey_def stripDeploymentTypePrefix_def
      substring_before_first_def substring_after_last_def length_str_split_Suc_0 hd_str_split
      last_str_split str_split_no_sep Let_def)

theorem deploymentType_and_stripPrefix_witness:
  "deploymentTypeFromAdminKey ''preview:abc|def'' = ''preview'' \<and>
   deploymentTypeFromAdminKey ''abc|def'' = ''prod'' \<and>
   stripDeploymentTypePrefix ''dev:tall-forest-1234'' = ''tall-forest-1234'' \<and>
   CHR '':'' \<notin> set ''no-colon'' \<and> stripDeploymentTypePrefix ''no-colon'' = ''no-colon''"
  using deploymentType_and_stripPrefix [of "''preview:abc|def''" "''dev:tall-forest-1234''"]
    deploymentType_and_stripPrefix [of "''abc|def''" "''no-colon''"]
  by (simp add: substring_before_first_def substring_after_last_def)

text \<open>
  C5. For every admin key, \<^const>\<open>deploymentNameFromAdminKey\<close> returns null when the key
  has no \<open>|\<close> or when its type is not \<open>prod\<close>; otherwise it returns the last
  colon-delimited segment of the portion before the first \<open>|\<close>. The key
  \<open>myapp-1234|rest\<close> gives \<open>myapp-1234\<close>, and every key whose type is not \<open>prod\<close> gives
  null whatever its \<open>|\<close> content.
\<close>

theorem deploymentNameFromAdminKey_spec:
  "deploymentNameFromAdminKey key =
     (if CHR ''|'' \<notin> set key \<or> deploymentTypeFromAdminKey key \<noteq> ''prod'' then None
      else Some (substring_after_last (CHR '':'') (substring_before_first (CHR ''|'') key))) \<and>
   deploymentNameFromAdminKey ''myapp-1234|rest'' = Some ''myapp-1234'' \<and>
   (deploymentTypeFromAdminKey key \<noteq> ''prod'' \<longrightarrow> deploymentNameFromAdminKey key = None)"
  by (simp add: deploymentNameFromAdminKey_def deploymentTypeFromAdminKey_def
      stripDeploymentTypePrefix_def substring_before_first_def substring_after_last_def
      length_str_split_Suc_0 hd_str_split last_str_split Let_def)

theorem deploymentNameFromAdminKey_spec_witness:
  "deploymentTypeFromAdminKey ''preview:abc|def'' \<noteq> ''prod'' \<and>
   deploymentNameFromAdminKey ''preview:abc|def'' = None \<and>
   deploymentNameFromAdminKey ''prod:myapp-1234|secret'' = Some ''myapp-1234'' \<and>
   deploymentNameFromAdminKey ''prod:myapp-1234'' = None"
  using deploymentNameFromAdminKey_spec [of "''preview:abc|def''"]
    deploymentNameFromAdminKey_spec [of "''prod:myapp-1234|secret''"]
    deploymentNameFromAdminKey_spec [of "''prod:myapp-1234''"]
  by (simp add: deploymentTypeFromAdminKey_def substring_before_first_def
      substring_after_last_def)

section \<open>The editors of .gitignore and .env.local\<close>

text \<open>
  C2, as the claim states its third example: \<^verbatim>\<open>changesToGitIgnore("node_modules\n")\<close>
  is not \<^verbatim>\<open>"node_modules\n.env.local\n"\<close>.
\<close>

theorem changesToGitIgnore_node_modules_counterexample:
  "changesToGitIgnore (Some ''node_modules\<newline>'') \<noteq> Some ''node_modules\<newline>.env.local\<newline>''"
  by (simp add: changesToGitIgnore_def ENV_VAR_FILE_PATH_def newline_def envVarFilePattern_def)

text \<open>
  C2, amended. \<^verbatim>\<open>changesToGitIgnore(null)\<close> returns \<^verbatim>\<open>".env.local\n"\<close>;
  \<^verbatim>\<open>changesToGitIgnore("*.local\n")\<close> returns null; and
  \<^verbatim>\<open>changesToGitIgnore("node_modules\n")\<close> returns \<^verbatim>\<open>"node_modules\n\n.env.local\n"\<close>:
  the existing content, a newline, the path and a newline, so that content which already
  ends in a newline is followed by an empty line.
\<close>

theorem changesToGitIgnore_examples:
  "changesToGitIgnore None = Some ''.env.local\<newline>'' \<and>
   changesToGitIgnore (Some ''*.local\<newline>'') = None \<and>
   changesToGitIgnore (Some ''node_modules\<newline>'') =
     Some ''node_modules\<newline>\<newline>.env.local\<newline>''"
  by (simp add: changesToGitIgnore_def ENV_VAR_FILE_PATH_def newline_def envVarFilePattern_def)

text \<open>
  C9. \<^const>\<open>changesToGitIgnore\<close> is idempotent: whenever it returns a new content, for
  any input including null, that content has a line equal to \<open>.env.local\<close> and
  \<^const>\<open>changesToGitIgnore\<close> applied to it returns null.
\<close>

theorem changesToGitIgnore_idempotent:
  assumes "changesToGitIgnore existingFile = Some new"
  shows "changesToGitIgnore (Some new) = None \<and>
         ''.env.local'' \<in> set (str_split (CHR 0x0A) new)"
proof -
  have tail: "str_split (CHR 0x0A) (''.env.local'' @ newline) = [''.env.local'', '''']"
    by (simp add: newline_def)
  have "\<exists>pre. str_split (CHR 0x0A) new = pre @ [''.env.local'', '''']"
  proof (cases existingFile)
    case None
    with assms tail show ?thesis
      by (auto simp: changesToGitIgnore_def ENV_VAR_FILE_PATH_def)
  next
    case (Some existing)
    with assms have "new = existing @ CHR 0x0A # (''.env.local'' @ newline)"
      by (auto simp: changesToGitIgnore_def ENV_VAR_FILE_PATH_def newline_def Let_def
          split: if_splits)
    then show ?thesis
      using tail by (simp only: str_split_append_sep) blast
  qed
  then obtain pre where "str_split (CHR 0x0A) new = pre @ [''.env.local'', '''']"
    by blast
  then show ?thesis
    by (simp add: changesToGitIgnore_def envVarFilePattern_def Let_def)
qed

theorem changesToGitIgnore_idempotent_witness:
  "changesToGitIgnore (Some ''node_modules'') = Some ''node_modules\<newline>.env.local\<newline>'' \<and>
   changesToGitIgnore (Some ''node_modules\<newline>.env.local\<newline>'') = None \<and>
   ''.env.local'' \<in> set (str_split (CHR 0x0A) ''node_modules\<newline>.env.local\<newline>'')"
proof -
  have h: "changesToGitIgnore (Some ''node_modules'') = Some ''node_modules\<newline>.env.local\<newline>''"
    by (simp add: changesToGitIgnore_def ENV_VAR_FILE_PATH_def newline_def
        envVarFilePattern_def)
  show ?thesis
    using h changesToGitIgnore_idempotent [OF h] by simp
qed

text \<open>
  C10. Every call of \<^const>\<open>writeDeploymentEnvVar\<close> sets \<^verbatim>\<open>CONVEX_DEPLOYMENT\<close> in
  \<^verbatim>\<open>process.env\<close> to the deployment type, a colon and the deployment name, also when no
  change of \<^verbatim>\<open>.env.local\<close> is computed: then it returns \<^verbatim>\<open>wroteToGitIgnore: false\<close> and
  writes no file.
\<close>

theorem writeDeploymentEnvVar_sets_process_env:
  "env (fst (writeDeploymentEnvVar f st dtype d)) ''CONVEX_DEPLOYMENT'' =
     Some (deploymentTypeString dtype @ '':'' @ deploymentName d) \<and>
   (changesToEnvVarFile f (files st ''.env.local'') dtype d = None \<longrightarrow>
      snd (writeDeploymentEnvVar f st dtype d) = False \<and>
      files (fst (writeDeploymentEnvVar f st dtype d)) = files st)"
  by (auto simp: writeDeploymentEnvVar_def gitIgnoreEnvVarFile_def Let_def
      CONVEX_DEPLOYMENT_VAR_NAME_def ENV_VAR_FILE_PATH_def split: option.splits)

theorem writeDeploymentEnvVar_sets_process_env_witness:
  "changesToEnvVarFile (\<lambda>_ _ _ _ _. None) None Dev
     \<lparr>team = ''t'', project = ''p'', deploymentName = ''d1234''\<rparr> = None \<and>
   writeDeploymentEnvVar (\<lambda>_ _ _ _ _. None) \<lparr>files = Map.empty, env = Map.empty\<rparr> Dev
     \<lparr>team = ''t'', project = ''p'', deploymentName = ''d1234''\<rparr> =
     (\<lparr>files = Map.empty, env = [''CONVEX_DEPLOYMENT'' \<mapsto> ''dev:d1234'']\<rparr>, False)"
  using writeDeploymentEnvVar_sets_process_env
    [of "\<lambda>_ _ _ _ _. None" "\<lparr>files = Map.empty, env = Map.empty\<rparr>" Dev
        "\<lparr>team = ''t'', project = ''p'', deploymentName = ''d1234''\<rparr>"]
  by (simp add: changesToEnvVarFile_def writeDeploymentEnvVar_def
      CONVEX_DEPLOYMENT_VAR_NAME_def ENV_VAR_FILE_PATH_def)

section \<open>Properties of the sequencing\<close>

lemma bindIO_Inl [simp]: "bindIO (es, Inl c) f = (es, Inl c)"
  by (simp add: bindIO_def)

lemma bindIO_Inr [simp]: "bindIO (es, Inr a) f = (es @ fst (f a), snd (f a))"
  by (simp add: bindIO_def split: prod.splits)

lemma bindIO_returnIO [simp]: "bindIO (returnIO a) f = f a"
  by (simp add: returnIO_def)

lemma bindIO_crash [simp]: "bindIO (crash c) f = crash c"
  by (simp add: crash_def)

lemma bindIO_emit [simp]: "bindIO (emit e) f = (e # fst (f ()), snd (f ()))"
  by (simp add: emit_def)

lemma bindIO_callIO_Inr [simp]: "bindIO (callIO e (Inr a)) f = (e # fst (f a), snd (f a))"
  by (simp add: callIO_def)

lemma bindIO_callIO_Inl [simp]: "bindIO (callIO e (Inl c)) f = ([e], Inl c)"
  by (simp add: callIO_def)

lemma fst_crash [simp]: "fst (crash c) = []"
  by (simp add: crash_def)

lemma snd_crash [simp]: "snd (crash c) = Inl c"
  by (simp add: crash_def)

lemma fst_returnIO [simp]: "fst (returnIO a) = []"
  by (simp add: returnIO_def)

lemma snd_returnIO [simp]: "snd (returnIO a) = Inr a"
  by (simp add: returnIO_def)

lemma fst_emit [simp]: "fst (emit e) = [e]"
  by (simp add: emit_def)

lemma snd_emit [simp]: "snd (emit e) = Inr ()"
  by (simp add: emit_def)

lemma fst_callIO [simp]: "fst (callIO e r) = [e]"
  by (simp add: callIO_def)

lemma snd_callIO [simp]: "snd (callIO e r) = r"
  by (simp add: callIO_def)

lemma fst_bindIO:
  "fst (bindIO m f) = fst m @ (case snd m of Inl c \<Rightarrow> [] | Inr a \<Rightarrow> fst (f a))"
  by (cases m) (auto simp: bindIO_def split: sum.splits prod.splits)

lemma set_fst_bindIO:
  "set (fst (bindIO m f)) =
     set (fst m) \<union> (case snd m of Inl c \<Rightarrow> {} | Inr a \<Rightarrow> set (fst (f a)))"
  by (simp add: fst_bindIO split: sum.splits)

section \<open>Events of the build command and of the push\<close>

lemma runCommand_None [simp]: "runCommand w v None d u = returnIO ()"
  by (simp add: runCommand_def)

lemma runCommand_dry_run:
  "runCommand w v (Some command) (Some True) u =
     bindIO (case v of Some x \<Rightarrow> returnIO x
             | None \<Rightarrow> callIO SuggestedEnvVarName (suggestedEnvVarName w)) (\<lambda>urlVar.
       ([ShowSpinner (''Running '' @ squote @ command @ squote @
           '' with environment variable '' @ dquote @ urlVar @ dquote @ '' set... [dry run]''),
         LogFinishedStep (''Would have run '' @ dquote @ command @ dquote @
           '' with environment variable '' @ dquote @ urlVar @ dquote @ '' set'')], Inr ()))"
  by (simp add: runCommand_def truthy_def split: option.splits)

lemma runCommand_events:
  assumes "e \<in> set (fst (runCommand w v c d u))"
  shows "e = SuggestedEnvVarName \<or> (\<exists>x y z. e = SpawnSync x y z) \<or>
         (\<exists>m. e = ShowSpinner m) \<or> (\<exists>m. e = LogFinishedStep m) \<or> (\<exists>m. e = LogFailure m)"
  using assms
  by (cases "suggestedEnvVarName w")
     (auto simp: runCommand_def set_fst_bindIO split: option.splits if_splits)

lemma runCommand_dry_events:
  assumes "e \<in> set (fst (runCommand w v c (Some True) u))"
  shows "e = SuggestedEnvVarName \<or> (\<exists>m. e = ShowSpinner m) \<or> (\<exists>m. e = LogFinishedStep m)"
  using assms
  by (cases "suggestedEnvVarName w")
     (auto simp: runCommand_def set_fst_bindIO truthy_def split: option.splits if_splits)

lemma handlePreview_dry_events:
  assumes "truthy (dryRun options)" and "e \<in> set (fst (handlePreview w options key))"
  shows "e = SuggestedEnvVarName \<or> isNarration e"
  using assms
  by (auto simp: handlePreview_def set_fst_bindIO truthy_def
      split: option.splits sum.splits dest!: runCommand_dry_events)

lemma deploymentNameFromAdminKeyOrCrash_events:
  assumes "e \<in> set (fst (deploymentNameFromAdminKeyOrCrash k))"
  shows "\<exists>m. e = LogFailure m"
  using assms
  by (auto simp: deploymentNameFromAdminKeyOrCrash_def split: option.splits)

lemma handleProduction_stages:
  "handleProduction w options =
     bindIO (callIO (FetchDeploymentCredentialsWithinCurrentProject
                       (deploymentSelectionFromOptions w options))
               (fetchDeploymentCredentialsWithinCurrentProject w
                  (deploymentSelectionFromOptions w options))) (\<lambda>creds.
     bindIO (confirmPush w options creds) (\<lambda>_. pushToProd w options creds))"
  unfolding handleProduction_def confirmPush_def pushToProd_def productionPushOptions_def Let_def
  by (rule refl)

lemma pushToProd_events:
  assumes "e \<in> set (fst (pushToProd w options creds))"
  shows "\<not> isPrompt e \<and> \<not> isLogMessage e"
proof -
  have rc: "\<not> isPrompt e \<and> \<not> isLogMessage e"
    if "e \<in> set (fst (runCommand w v c d u))" for v c d u
    using runCommand_events [OF that] by (cases e) auto
  have dn: "\<not> isPrompt e \<and> \<not> isLogMessage e"
    if "e \<in> set (fst (deploymentNameFromAdminKeyOrCrash k))" for k
    using deploymentNameFromAdminKeyOrCrash_events [OF that] by auto
  from assms show ?thesis
    unfolding pushToProd_def
    by (auto simp: set_fst_bindIO split: sum.splits if_splits dest: rc dn)
qed

lemma pushToProd_pushes:
  assumes "snd (runCommand w (cmdUrlEnvVarName options) (cmd options) (dryRun options)
                  (cred_url creds)) = Inr ()"
  shows "RunPush (productionPushOptions options creds) \<in> set (fst (pushToProd w options creds))"
  using assms by (simp add: pushToProd_def set_fst_bindIO)

lemma askToConfirmPush_Inr:
  "suggestedEnvVarName w = Inr v \<Longrightarrow>
   \<exists>body. askToConfirmPush w c p u =
     ([SuggestedEnvVarName, LogMessage body, InquirerPrompt (confirmQuestion p)],
      Inr (inquirerPrompt w (confirmQuestion p)))"
  by (simp add: askToConfirmPush_def)

lemma confirmPush_skipped:
  assumes "cred_deploymentNames creds = Some names"
    and "configured names = Some configuredName"
    and "selected names = configuredName \<or> yes options = Some True"
  shows "confirmPush w options creds = returnIO ()"
  using assms by (auto simp: confirmPush_def)

lemma confirmPush_asked:
  assumes "cred_deploymentNames creds = Some names"
    and "configured names = Some configuredName"
    and "selected names \<noteq> configuredName"
    and "yes options = None"
    and "suggestedEnvVarName w = Inr v"
  shows "\<exists>body. confirmPush w options creds =
           ([SuggestedEnvVarName, LogMessage body,
             InquirerPrompt (confirmQuestion (selected names))],
            (if inquirerPrompt w (confirmQuestion (selected names)) then Inr () else Inl 1))"
proof -
  obtain body where a:
    "askToConfirmPush w configuredName (selected names) (cred_url creds) =
       ([SuggestedEnvVarName, LogMessage body,
         InquirerPrompt (confirmQuestion (selected names))],
        Inr (inquirerPrompt w (confirmQuestion (selected names))))"
    using askToConfirmPush_Inr [OF assms(5)] by blast
  show ?thesis
    using assms(1-4) by (simp add: confirmPush_def a crash_def returnIO_def)
qed

lemma deployAction_preview_name:
  assumes "configuredDeployKey w cmdOpts = Some key"
    and "deploymentTypeFromAdminKey key = ''preview''"
    and "previewName cmdOpts \<noteq> None"
  shows "deployAction w cmdOpts =
     bindIO (callIO GetConfiguredDeployment (getConfiguredDeployment w)) (\<lambda>configuredDeployment.
     bindIO (if configuredDeployment = None \<and> adminKey cmdOpts = Null
             then bindIO (emit (LogFailure deployKeyMissingMessage)) (\<lambda>_. crash 1)
             else returnIO ()) (\<lambda>_.
     bindIO (callIO UsageStateWarning (usageStateWarning w)) (\<lambda>_.
     bindIO (emit (LogError previewNameDeprecatedMessage)) (\<lambda>_. crash 1))))"
  using assms by (simp add: deployAction_def)

section \<open>The deploy command\<close>

text \<open>
  C1, as the claim states it, fails: on a developer's machine with no deploy key in the
  environment and no \<^verbatim>\<open>--admin-key\<close> flag, but a dev deployment configured, the action
  of the command does not fail; it returns normally after the push.
\<close>

theorem deploy_without_deploy_key_counterexample:
  "configuredDeployKey exampleWorld exampleOptions = None \<and>
   adminKey exampleOptions = Undefined \<and>
   snd (deployAction exampleWorld exampleOptions) = Inr ()"
  by (simp add: deployAction_def configuredDeployKey_def
      handleProduction_def askToConfirmPush_def runCommand_def exampleWorld_def
      exampleCredentials_def
      exampleOptions_def truthy_def Let_def)

text \<open>
  C1, amended. When the deploy-key environment variable is absent and no admin key was
  given by flag, and a deployment is configured (\<^verbatim>\<open>getConfiguredDeployment\<close> returns a
  name), the action does not stop with the deploy-key failure: after the usage warning
  it runs the production flow, and its events and its outcome are those of
  \<^const>\<open>handleProduction\<close>.
\<close>

theorem deploy_without_deploy_key_proceeds:
  assumes "configuredDeployKey w cmdOpts = None"
    and "adminKey cmdOpts = Undefined"
    and "getConfiguredDeployment w = Inr (Some d)"
    and "usageStateWarning w = Inr ()"
  shows "deployAction w cmdOpts =
           (GetConfiguredDeployment # UsageStateWarning # fst (handleProduction w cmdOpts),
            snd (handleProduction w cmdOpts))"
  using assms by (simp add: deployAction_def)

theorem deploy_without_deploy_key_proceeds_witness:
  "configuredDeployKey exampleWorld exampleOptions = None \<and>
   adminKey exampleOptions = Undefined \<and>
   getConfiguredDeployment exampleWorld = Inr (Some ''tall-forest-1234'') \<and>
   usageStateWarning exampleWorld = Inr () \<and>
   deployAction exampleWorld exampleOptions =
     (GetConfiguredDeployment # UsageStateWarning #
        fst (handleProduction exampleWorld exampleOptions),
      snd (handleProduction exampleWorld exampleOptions))"
proof -
  have 1: "configuredDeployKey exampleWorld exampleOptions = None"
    by (simp add: configuredDeployKey_def exampleWorld_def exampleOptions_def)
  have 2: "adminKey exampleOptions = Undefined"
    by (simp add: exampleOptions_def)
  have 3: "getConfiguredDeployment exampleWorld = Inr (Some ''tall-forest-1234'')"
    by (simp add: exampleWorld_def)
  have 4: "usageStateWarning exampleWorld = Inr ()"
    by (simp add: exampleWorld_def)
  show ?thesis
    using 1 2 3 4 deploy_without_deploy_key_proceeds [OF 1 2 3 4] by simp
qed

text \<open>
  C3. With the build-environment check enabled, if the process runs in a non-production
  build environment and a deploy key of type \<open>prod\<close> is configured, the action logs the
  error and exits with code 1 before anything else happens: no collaborator is called,
  so no deployment is resolved and nothing is pushed: the exit code is 1 and the only
  event is that error.
\<close>

theorem build_environment_check_is_fatal:
  assumes "checkBuildEnvironment cmdOpts = Enable"
    and "isNonProdBuildEnvironment w"
    and "configuredDeployKey w cmdOpts = Some key"
    and "deploymentTypeFromAdminKey key = ''prod''"
  shows "deployAction w cmdOpts = ([LogError buildEnvironmentMessage], Inl 1) \<and>
         snd (deployAction w cmdOpts) = Inl 1 \<and>
         (\<forall>e \<in> set (fst (deployAction w cmdOpts)). e = LogError buildEnvironmentMessage)"
proof -
  have eq: "deployAction w cmdOpts = ([LogError buildEnvironmentMessage], Inl 1)"
    using assms by (simp add: deployAction_def)
  show ?thesis
    unfolding eq by simp
qed

theorem build_environment_check_is_fatal_witness:
  "deployAction (exampleWorld\<lparr>isNonProdBuildEnvironment := True\<rparr>)
     (exampleOptions\<lparr>adminKey := Val ''myapp-1234|secret''\<rparr>) =
   ([LogError buildEnvironmentMessage], Inl 1)"
proof -
  let ?w = "exampleWorld\<lparr>isNonProdBuildEnvironment := True\<rparr>"
  let ?o = "exampleOptions\<lparr>adminKey := Val ''myapp-1234|secret''\<rparr>"
  have 1: "checkBuildEnvironment ?o = Enable"
    by (simp add: exampleOptions_def)
  have 2: "isNonProdBuildEnvironment ?w"
    by simp
  have 3: "configuredDeployKey ?w ?o = Some ''myapp-1234|secret''"
    by (simp add: configuredDeployKey_def exampleWorld_def exampleOptions_def)
  have 4: "deploymentTypeFromAdminKey ''myapp-1234|secret'' = ''prod''"
    by (simp add: deploymentTypeFromAdminKey_def)
  show ?thesis
    using build_environment_check_is_fatal [OF 1 2 3 4] by blast
qed

text \<open>
  C4. In the production flow, when the remote API reports a configured name and a
  selected name: if they are equal, or if they differ and \<^verbatim>\<open>--yes\<close> was given, nothing
  of the confirmation happens (no message, no prompt) and the flow goes on to the build
  command and, unless that step ends the process, to the push; if they differ and
  \<^verbatim>\<open>--yes\<close> was not given, the prompt is shown (the collaborator that suggests the
  variable name having returned), and when it is declined the process exits with code 1
  right after the prompt, before any command or push.
\<close>

theorem production_confirmation:
  assumes f: "fetchDeploymentCredentialsWithinCurrentProject w
                (deploymentSelectionFromOptions w options) = Inr creds"
    and n: "cred_deploymentNames creds = Some names"
    and c: "configured names = Some configuredName"
  shows "(selected names = configuredName \<or> yes options = Some True \<longrightarrow>
            (\<forall>e \<in> set (fst (handleProduction w options)).
               \<not> isPrompt e \<and> \<not> isLogMessage e) \<and>
            (snd (runCommand w (cmdUrlEnvVarName options) (cmd options) (dryRun options)
                    (cred_url creds)) = Inr () \<longrightarrow>
             RunPush (productionPushOptions options creds)
               \<in> set (fst (handleProduction w options)))) \<and>
         (selected names \<noteq> configuredName \<and> yes options = None \<and>
          suggestedEnvVarName w = Inr v \<longrightarrow>
            InquirerPrompt (confirmQuestion (selected names))
              \<in> set (fst (handleProduction w options)) \<and>
            (\<not> inquirerPrompt w (confirmQuestion (selected names)) \<longrightarrow>
               (\<exists>body. handleProduction w options =
                  ([FetchDeploymentCredentialsWithinCurrentProject
                      (deploymentSelectionFromOptions w options),
                    SuggestedEnvVarName, LogMessage body,
                    InquirerPrompt (confirmQuestion (selected names))], Inl 1))))"
proof (intro conjI impI)
  assume s: "selected names = configuredName \<or> yes options = Some True"
  have hp: "handleProduction w options =
      (FetchDeploymentCredentialsWithinCurrentProject (deploymentSelectionFromOptions w options) #
         fst (pushToProd w options creds), snd (pushToProd w options creds))"
    by (simp add: handleProduction_stages f confirmPush_skipped [OF n c s])
  show "\<forall>e \<in> set (fst (handleProduction w options)). \<not> isPrompt e \<and> \<not> isLogMessage e"
    using pushToProd_events [of _ w options creds] by (auto simp: hp)
  show "RunPush (productionPushOptions options creds) \<in> set (fst (handleProduction w options))"
    if "snd (runCommand w (cmdUrlEnvVarName options) (cmd options) (dryRun options)
              (cred_url creds)) = Inr ()"
    using pushToProd_pushes [OF that] by (simp add: hp)
next
  assume a: "selected names \<noteq> configuredName \<and> yes options = None \<and>
             suggestedEnvVarName w = Inr v"
  then obtain body where cp: "confirmPush w options creds =
      ([SuggestedEnvVarName, LogMessage body,
        InquirerPrompt (confirmQuestion (selected names))],
       (if inquirerPrompt w (confirmQuestion (selected names)) then Inr () else Inl 1))"
    using confirmPush_asked [OF n c, of options w v] by blast
  show "InquirerPrompt (confirmQuestion (selected names))
          \<in> set (fst (handleProduction w options))"
    by (simp add: handleProduction_stages f cp)
  show "\<exists>body. handleProduction w options =
          ([FetchDeploymentCredentialsWithinCurrentProject
              (deploymentSelectionFromOptions w options),
            SuggestedEnvVarName, LogMessage body,
            InquirerPrompt (confirmQuestion (selected names))], Inl 1)"
    if "\<not> inquirerPrompt w (confirmQuestion (selected names))"
    using that by (simp add: handleProduction_stages f cp)
qed

theorem production_confirmation_witness:
  "RunPush (productionPushOptions (exampleOptions\<lparr>yes := Some True\<rparr>) exampleCredentials)
     \<in> set (fst (handleProduction exampleWorld (exampleOptions\<lparr>yes := Some True\<rparr>))) \<and>
   (\<exists>body. handleProduction (exampleWorld\<lparr>inquirerPrompt := (\<lambda>_. False)\<rparr>) exampleOptions =
      ([FetchDeploymentCredentialsWithinCurrentProject ''prod'', SuggestedEnvVarName,
        LogMessage body, InquirerPrompt (confirmQuestion ''myapp-1234'')], Inl 1))"
proof -
  let ?yes = "exampleOptions\<lparr>yes := Some True\<rparr>"
  let ?no = "exampleWorld\<lparr>inquirerPrompt := (\<lambda>_. False)\<rparr>"
  let ?names = "\<lparr>configured = Some ''tall-forest-1234'', selected = ''myapp-1234''\<rparr>"
  have n: "cred_deploymentNames exampleCredentials = Some ?names"
    by (simp add: exampleCredentials_def)
  have c: "configured ?names = Some ''tall-forest-1234''"
    by simp
  have f1: "fetchDeploymentCredentialsWithinCurrentProject exampleWorld
              (deploymentSelectionFromOptions exampleWorld ?yes) = Inr exampleCredentials"
    by (simp add: exampleWorld_def)
  have y: "yes ?yes = Some True"
    by simp
  have r: "snd (runCommand exampleWorld (cmdUrlEnvVarName ?yes) (cmd ?yes) (dryRun ?yes)
                  (cred_url exampleCredentials)) = Inr ()"
    by (simp add: runCommand_def exampleOptions_def)
  have first: "RunPush (productionPushOptions ?yes exampleCredentials)
                 \<in> set (fst (handleProduction exampleWorld ?yes))"
    using production_confirmation [OF f1 n c] y r by blast
  have f2: "fetchDeploymentCredentialsWithinCurrentProject ?no
              (deploymentSelectionFromOptions ?no exampleOptions) = Inr exampleCredentials"
    by (simp add: exampleWorld_def)
  have d: "selected ?names \<noteq> ''tall-forest-1234''"
    by simp
  have u: "yes exampleOptions = None"
    by (simp add: exampleOptions_def)
  have s: "suggestedEnvVarName ?no = Inr ''VITE_CONVEX_URL''"
    by (simp add: exampleWorld_def)
  have q: "\<not> inquirerPrompt ?no (confirmQuestion (selected ?names))"
    by simp
  have sel: "deploymentSelectionFromOptions exampleWorld exampleOptions = ''prod''"
    by (simp add: exampleWorld_def)
  have second: "\<exists>body. handleProduction ?no exampleOptions =
      ([FetchDeploymentCredentialsWithinCurrentProject ''prod'', SuggestedEnvVarName,
        LogMessage body, InquirerPrompt (confirmQuestion ''myapp-1234'')], Inl 1)"
    using production_confirmation [OF f2 n c, where v = "''VITE_CONVEX_URL''"] d u s q
    by (simp add: sel)
  from first second show ?thesis by blast
qed

text \<open>
  C7, as the claim states it, fails in its last part: with the claim call returning the
  placeholder URL, the narration of the real preview flow is not the narration of the
  dry run.
\<close>

theorem preview_dry_run_narration_counterexample:
  "filter isNarration
     (fst (handlePreview exampleWorld
             (exampleOptions\<lparr>previewCreate := Some ''feat'', dryRun := Some True\<rparr>)
             ''preview:team:project|secret'')) \<noteq>
   filter isNarration
     (fst (handlePreview exampleWorld
             (exampleOptions\<lparr>previewCreate := Some ''feat''\<rparr>)
             ''preview:team:project|secret''))"
  by (simp add: handlePreview_def exampleWorld_def exampleOptions_def truthy_def
      PREVIEW_PLACEHOLDER_URL_def Let_def)

text \<open>
  C7, amended. For every run of the preview flow with the dry-run flag set, no event is
  a network call (in particular none is the claim call) and none is a spawned process.
  When the preview name is determined and the name of the environment variable is known
  (or there is no build command), the flow returns normally and its events are exactly
  the dry run's own narration, \<^const>\<open>previewDryRunTrace\<close>: each step in the
  \<open>Would have\<close> wording with the preview name, not the real flow's lines, and the
  placeholder URL, passed to the command step, in none of them.
\<close>

theorem preview_dry_run:
  assumes "truthy (dryRun options)"
  shows "(\<forall>e \<in> set (fst (handlePreview w options key)).
            \<not> isNetworkCall e \<and> \<not> isClaimCall e \<and> \<not> isSpawn e) \<and>
         ((case previewCreate options of Some n \<Rightarrow> Some n
           | None \<Rightarrow> gitBranchFromEnvironment w) = Some name \<and>
          (cmd options = None \<or>
           (case cmdUrlEnvVarName options of Some v \<Rightarrow> Inr v
            | None \<Rightarrow> suggestedEnvVarName w) = Inr urlVar) \<longrightarrow>
          handlePreview w options key =
            (previewDryRunTrace name (cmd options) (cmdUrlEnvVarName options) urlVar
               (previewRun options), Inr ()))"
proof -
  have safe: "\<not> isNetworkCall e \<and> \<not> isClaimCall e \<and> \<not> isSpawn e"
    if "e \<in> set (fst (handlePreview w options key))" for e
    using handlePreview_dry_events [OF assms that] by (cases e) auto
  have trace: "handlePreview w options key =
      (previewDryRunTrace name (cmd options) (cmdUrlEnvVarName options) urlVar
         (previewRun options), Inr ())"
    if n: "(case previewCreate options of Some n \<Rightarrow> Some n
            | None \<Rightarrow> gitBranchFromEnvironment w) = Some name"
      and v: "cmd options = None \<or>
              (case cmdUrlEnvVarName options of Some v \<Rightarrow> Inr v
               | None \<Rightarrow> suggestedEnvVarName w) = Inr urlVar"
  proof (cases "cmd options")
    case None
    with assms n show ?thesis
      by (simp add: handlePreview_def previewDryRunTrace_def split: option.splits)
  next
    case (Some command)
    with v have "(case cmdUrlEnvVarName options of Some v \<Rightarrow> Inr v
                  | None \<Rightarrow> suggestedEnvVarName w) = Inr urlVar"
      by simp
    with Some assms n show ?thesis
      by (auto simp: handlePreview_def previewDryRunTrace_def runCommand_dry_run
          split: option.splits)
  qed
  from safe trace show ?thesis by blast
qed

theorem preview_dry_run_witness:
  "handlePreview exampleWorld
     (exampleOptions\<lparr>dryRun := Some True, previewCreate := Some ''feat'',
        cmd := Some ''vite build'', previewRun := Some ''init''\<rparr>)
     ''preview:team:project|secret'' =
   (previewDryRunTrace ''feat'' (Some ''vite build'') None ''VITE_CONVEX_URL'' (Some ''init''),
    Inr ())"
proof -
  let ?o = "exampleOptions\<lparr>dryRun := Some True, previewCreate := Some ''feat'',
              cmd := Some ''vite build'', previewRun := Some ''init''\<rparr>"
  have t: "truthy (dryRun ?o)"
    by (simp add: truthy_def)
  have n: "(case previewCreate ?o of Some n \<Rightarrow> Some n
            | None \<Rightarrow> gitBranchFromEnvironment exampleWorld) = Some ''feat''"
    by simp
  have v: "(case cmdUrlEnvVarName ?o of Some v \<Rightarrow> Inr v
            | None \<Rightarrow> suggestedEnvVarName exampleWorld) = Inr ''VITE_CONVEX_URL''"
    by (simp add: exampleWorld_def exampleOptions_def)
  show ?thesis
    using preview_dry_run [OF t, where w = exampleWorld
        and key = "''preview:team:project|secret''" and name = "''feat''"
        and urlVar = "''VITE_CONVEX_URL''"] n v
    by (simp add: exampleOptions_def)
qed

text \<open>
  The legacy flag in the preview flow. Whenever \<^verbatim>\<open>--preview-name\<close> is given (with or
  without \<^verbatim>\<open>--preview-create\<close>) and the deploy key is of type \<open>preview\<close>, the action ends
  the process and never reaches the claim call: the only collaborators called are the
  configured-deployment lookup and the usage warning, and when these two return the exit
  code is 1, with the deprecation error as the last event.
\<close>

lemma preview_name_flag_is_fatal:
  assumes a: "previewName cmdOpts \<noteq> None"
    "configuredDeployKey w cmdOpts = Some key"
    "deploymentTypeFromAdminKey key = ''preview''"
  shows "(\<exists>code. snd (deployAction w cmdOpts) = Inl code) \<and>
      (\<forall>e \<in> set (fst (deployAction w cmdOpts)).
         \<not> isClaimCall e \<and>
         (e = GetConfiguredDeployment \<or> e = UsageStateWarning \<or> isNarration e)) \<and>
      (getConfiguredDeployment w = Inr d \<and> usageStateWarning w = Inr () \<longrightarrow>
         snd (deployAction w cmdOpts) = Inl 1 \<and>
         (d \<noteq> None \<or> adminKey cmdOpts \<noteq> Null \<longrightarrow>
            deployAction w cmdOpts =
              ([GetConfiguredDeployment, UsageStateWarning,
                LogError previewNameDeprecatedMessage], Inl 1)))"
proof (intro conjI impI)
  note da = deployAction_preview_name [OF a(2) a(3) a(1)]
  show "\<exists>code. snd (deployAction w cmdOpts) = Inl code"
    by (cases "getConfiguredDeployment w"; cases "usageStateWarning w")
       (auto simp: da)
  show "\<forall>e \<in> set (fst (deployAction w cmdOpts)).
         \<not> isClaimCall e \<and>
         (e = GetConfiguredDeployment \<or> e = UsageStateWarning \<or> isNarration e)"
    by (cases "getConfiguredDeployment w"; cases "usageStateWarning w")
       (auto simp: da)
  {
    assume r: "getConfiguredDeployment w = Inr d \<and> usageStateWarning w = Inr ()"
    from r show "snd (deployAction w cmdOpts) = Inl 1"
      by (auto simp: da)
    assume "d \<noteq> None \<or> adminKey cmdOpts \<noteq> Null"
    with r show "deployAction w cmdOpts =
        ([GetConfiguredDeployment, UsageStateWarning,
          LogError previewNameDeprecatedMessage], Inl 1)"
      by (auto simp: da)
  }
qed


text \<open>
  The guard of lines 156 to 165 as the code has it: the failure that asks for the deploy
  key is issued exactly when no deployment is configured and the \<^verbatim>\<open>adminKey\<close> option is
  \<^verbatim>\<open>null\<close>. An option that was not given is \<^verbatim>\<open>undefined\<close>, for which the strict
  comparison with \<^verbatim>\<open>null\<close> is false, and the action goes on.
\<close>

lemma deployKeyMissing_guard:
  assumes "configuredDeployKey w cmdOpts = None"
    and "getConfiguredDeployment w = Inr d"
  shows "deployAction w cmdOpts =
           (if d = None \<and> adminKey cmdOpts = Null
            then ([GetConfiguredDeployment, LogFailure deployKeyMissingMessage], Inl 1)
            else bindIO (callIO GetConfiguredDeployment (Inr d)) (\<lambda>_.
                 bindIO (callIO UsageStateWarning (usageStateWarning w)) (\<lambda>_.
                 handleProduction w cmdOpts)))"
  using assms by (simp add: deployAction_def crash_def)

end
